theory Spec2Isabelle
  imports Complex_Main "HOL-Library.Sublist"
begin

section \<open>Data model: cells, rows and frames\<close>

text \<open>
  \<^verbatim>\<open>dashboard.py\<close> keeps the job postings in a pandas DataFrame. A cell of the frame
  is a text (\<open>Str\<close>), an integer number (\<open>Num\<close>), a timestamp (\<open>Stamp\<close>, nanoseconds since
  1970-01-01 00:00, as pandas stores \<open>datetime64[ns]\<close>) or missing (\<open>NaN\<close>, which also
  stands for \<open>NaT\<close> and \<open>None\<close>: everything \<open>isna\<close> accepts). Texts are ASCII; floats and
  booleans are not represented.
  A row is a function from column names to cells, paired with its index label; a frame
  is the list of its column names and the list of its labelled rows, in order.
\<close>

datatype cell = Str string | Num int | Stamp int | NaN

type_synonym row = "string \<Rightarrow> cell"

type_synonym lrow = "nat \<times> row"

record frame =
  columns :: "string list"
  rows :: "lrow list"

datatype error =
    FileNotFoundError
  | KeyError string
  | AttributeError
  | ZeroDivisionError
  | OtherException string

datatype message = St_warning string | St_error string error

text \<open>
  What the script takes from pandas and Python without defining it: the date parser
  behind \<open>pd.to_datetime\<close> (given the whole column, since the format is inferred from
  it, and the cell; \<open>None\<close> when the cell does not parse), whether the \<open>.str\<close> accessor
  accepts a column (it raises AttributeError on a column pandas does not take for
  strings), Python's \<open>str()\<close> of a number or a timestamp, and what \<open>.astype(str)\<close> makes
  of a missing cell: the text \<open>nan\<close> up to pandas 2, the missing cell itself from
  pandas 3 on. The script pins no version.
\<close>

record pandas =
  parse_date :: "cell list \<Rightarrow> cell \<Rightarrow> int option"
  str_accessor :: "cell list \<Rightarrow> bool"
  py_str :: "cell \<Rightarrow> string"
  astype_str_missing :: cell

definition cell_at :: "lrow \<Rightarrow> string \<Rightarrow> cell" where
  "cell_at r c = snd r c"

definition isna :: "cell \<Rightarrow> bool" where
  "isna c = (c = NaN)"

text \<open>\<open>df[c]\<close> read as a column, and \<open>df[c] = ...\<close> computed row by row.\<close>

definition col :: "string \<Rightarrow> lrow list \<Rightarrow> cell list" where
  "col c rs = map (\<lambda>r. cell_at r c) rs"

definition set_cell :: "string \<Rightarrow> cell \<Rightarrow> lrow \<Rightarrow> lrow" where
  "set_cell c v r = (fst r, (snd r)(c := v))"

definition assign :: "string \<Rightarrow> (lrow \<Rightarrow> cell) \<Rightarrow> frame \<Rightarrow> frame" where
  "assign c f df =
     \<lparr>columns = (if c \<in> set (columns df) then columns df else columns df @ [c]),
      rows = map (\<lambda>r. set_cell c (f r) r) (rows df)\<rparr>"

section \<open>The loader\<close>

subsection \<open>Column operations of lines 75 to 84\<close>

text \<open>\<open>pd.to_datetime(..., errors='coerce')\<close>: what does not parse becomes \<open>NaT\<close>.\<close>

definition to_datetime :: "pandas \<Rightarrow> cell list \<Rightarrow> cell \<Rightarrow> cell" where
  "to_datetime lib column c =
     (case c of
        NaN \<Rightarrow> NaN
      | Stamp t \<Rightarrow> Stamp t
      | _ \<Rightarrow> (case parse_date lib column c of Some t \<Rightarrow> Stamp t | None \<Rightarrow> NaN))"

text \<open>\<open>.str.split(',').str[0]\<close>: the text before the first comma; a cell that is not a
  text gives \<open>NaN\<close>.\<close>

definition str_split_first :: "cell \<Rightarrow> cell" where
  "str_split_first c =
     (case c of Str s \<Rightarrow> Str (takeWhile (\<lambda>x. x \<noteq> CHR '','') s) | _ \<Rightarrow> NaN)"

text \<open>Python's \<open>str.strip()\<close> on ASCII text: the characters \<open>isspace\<close> accepts are
  9 to 13 and 28 to 32.\<close>

definition is_space :: "char \<Rightarrow> bool" where
  "is_space x = (let n = (of_char x :: nat) in (9 \<le> n \<and> n \<le> 13) \<or> (28 \<le> n \<and> n \<le> 32))"

definition strip :: "string \<Rightarrow> string" where
  "strip s = rev (dropWhile is_space (rev (dropWhile is_space s)))"

definition str_strip :: "cell \<Rightarrow> cell" where
  "str_strip c = (case c of Str s \<Rightarrow> Str (strip s) | _ \<Rightarrow> NaN)"

text \<open>\<open>.astype(str)\<close> applies \<open>str()\<close> to every cell that is not missing; what a
  missing cell becomes depends on the version of pandas.\<close>

definition astype_str :: "pandas \<Rightarrow> cell \<Rightarrow> cell" where
  "astype_str lib c =
     (case c of Str s \<Rightarrow> Str s | NaN \<Rightarrow> astype_str_missing lib
      | _ \<Rightarrow> Str (py_str lib c))"

definition dropna :: "string list \<Rightarrow> frame \<Rightarrow> frame" where
  "dropna cs df =
     df\<lparr>rows := filter (\<lambda>r. \<forall>c \<in> set cs. \<not> isna (cell_at r c)) (rows df)\<rparr>"

subsection \<open>\<open>create_sample_data\<close>\<close>

text \<open>
  The draws of numpy's generator after \<open>np.random.seed(42)\<close> are fixed but not
  computable here; they are the fields of a \<open>sampler\<close>, one per call in the source, each
  giving the draw for row \<open>i\<close>. \<open>sample_date\<close> is the \<open>i\<close>-th timestamp of \<open>pd.date_range\<close>.
\<close>

record sampler =
  title_draw :: "nat \<Rightarrow> nat"
  company_draw :: "nat \<Rightarrow> nat"
  city_draw :: "nat \<Rightarrow> nat"
  location_city_draw :: "nat \<Rightarrow> nat"
  location_state_draw :: "nat \<Rightarrow> nat"
  sample_date :: "nat \<Rightarrow> int"
  hired_draw :: "nat \<Rightarrow> nat"
  easy_draw :: "nat \<Rightarrow> nat"
  salary_min_draw :: "nat \<Rightarrow> nat"
  salary_max_draw :: "nat \<Rightarrow> nat"

definition job_titles :: "string list" where
  "job_titles =
     [''Data Analyst'', ''Business Analyst'', ''Data Scientist'',
      ''Business Intelligence Analyst'', ''Marketing Analyst'',
      ''Financial Analyst'', ''Research Analyst'', ''Operations Analyst'']"

definition cities :: "string list" where
  "cities =
     [''New York'', ''San Francisco'', ''Chicago'', ''Boston'', ''Seattle'',
      ''Los Angeles'', ''Austin'', ''Denver'', ''Atlanta'', ''Miami'']"

definition companies :: "string list" where
  "companies =
     [''Google'', ''Microsoft'', ''Amazon'', ''Meta'', ''Apple'',
      ''Netflix'', ''Uber'', ''Airbnb'', ''Spotify'', ''Tesla'']"

definition states :: "string list" where
  "states = [''NY'', ''CA'', ''TX'', ''FL'', ''WA'']"

definition yes_no :: "string list" where
  "yes_no = [''Yes'', ''No'']"

definition n_jobs :: nat where
  "n_jobs = 1000"

text \<open>\<open>np.random.choice(xs, n)[i]\<close>: the element the \<open>i\<close>-th draw points at.\<close>

definition choice :: "string list \<Rightarrow> nat \<Rightarrow> string" where
  "choice xs d = xs ! (d mod length xs)"

definition sample_row :: "sampler \<Rightarrow> nat \<Rightarrow> row" where
  "sample_row s i =
     (\<lambda>_. NaN)
       (''Job Title'' := Str (choice job_titles (title_draw s i)),
        ''Company'' := Str (choice companies (company_draw s i)),
        ''City'' := Str (choice cities (city_draw s i)),
        ''Job Location'' :=
           Str (choice cities (location_city_draw s i) @ '', '' @
                choice states (location_state_draw s i)),
        ''Date'' := Stamp (sample_date s i),
        ''Hired'' := Str (choice yes_no (hired_draw s i)),
        ''Easy Apply'' := Str (choice yes_no (easy_draw s i)),
        ''Salary_Min'' := Num (50000 + int (salary_min_draw s i mod 70000)),
        ''Salary_Max'' := Num (70000 + int (salary_max_draw s i mod 80000)))"

definition create_sample_data :: "sampler \<Rightarrow> frame" where
  "create_sample_data s =
     \<lparr>columns = [''Job Title'', ''Company'', ''City'', ''Job Location'', ''Date'',
                 ''Hired'', ''Easy Apply'', ''Salary_Min'', ''Salary_Max''],
      rows = map (\<lambda>i. (i, sample_row s i)) [0..<n_jobs]\<rparr>"

subsection \<open>\<open>load_data\<close>\<close>

definition possible_files :: "string list" where
  "possible_files =
     [''DataAnalystjobs2023.xlsx'', ''dataanalystjobs2023.xlsx'',
      ''data_analyst_jobs_2023.xlsx'', ''DataAnalystJobs2023.xlsx'']"

text \<open>
  The file system is the function \<open>fs\<close>: what \<open>pd.read_excel(file_name)\<close> returns or
  raises. The loop of lines 62 to 67 goes on to the next name on FileNotFoundError only;
  any other exception leaves the loop and the \<open>try\<close> block.
\<close>

fun read_first :: "(string \<Rightarrow> error + frame) \<Rightarrow> string list \<Rightarrow> error + frame option" where
  "read_first fs [] = Inr None"
| "read_first fs (file_name # others) =
     (case fs file_name of
        Inr df \<Rightarrow> Inr (Some df)
      | Inl FileNotFoundError \<Rightarrow> read_first fs others
      | Inl e \<Rightarrow> Inl e)"

text \<open>Lines 75 to 84. \<open>df['Date']\<close> raises KeyError when the file has no such column;
  \<open>.str\<close> raises AttributeError on a column it does not accept.\<close>

definition preprocess :: "pandas \<Rightarrow> frame \<Rightarrow> error + frame" where
  "preprocess lib df =
     (if ''Date'' \<notin> set (columns df) then Inl (KeyError ''Date'')
      else
        let df1 = assign ''Date''
                    (\<lambda>r. to_datetime lib (col ''Date'' (rows df)) (cell_at r ''Date'')) df
        in
        if ''Job Location'' \<in> set (columns df1) \<and>
           \<not> str_accessor lib (col ''Job Location'' (rows df1))
        then Inl AttributeError
        else
          let df2 = assign ''City''
                      (\<lambda>r. if ''Job Location'' \<in> set (columns df1)
                           then str_split_first (cell_at r ''Job Location'')
                           else Str ''Unknown'') df1
          in
          if ''Job Title'' \<in> set (columns df2) \<and>
             \<not> str_accessor lib (col ''Job Title'' (rows df2))
          then Inl AttributeError
          else
            let df3 = assign ''Job Title''
                        (\<lambda>r. if ''Job Title'' \<in> set (columns df2)
                             then str_strip (cell_at r ''Job Title'')
                             else Str ''Data Analyst'') df2;
                df4 = assign ''Hired''
                        (\<lambda>r. if ''Hired'' \<in> set (columns df3)
                             then astype_str lib (cell_at r ''Hired'')
                             else Str ''No'') df3;
                df5 = assign ''Easy Apply''
                        (\<lambda>r. if ''Easy Apply'' \<in> set (columns df4)
                             then astype_str lib (cell_at r ''Easy Apply'')
                             else Str ''No'') df4
            in Inr (dropna [''Date'', ''Job Title''] df5))"

definition load_data_try :: "pandas \<Rightarrow> (string \<Rightarrow> error + frame) \<Rightarrow> error + frame option" where
  "load_data_try lib fs =
     (case read_first fs possible_files of
        Inl e \<Rightarrow> Inl e
      | Inr None \<Rightarrow> Inr None
      | Inr (Some df) \<Rightarrow>
          (case preprocess lib df of Inl e \<Rightarrow> Inl e | Inr df' \<Rightarrow> Inr (Some df')))"

text \<open>The whole function: the messages it shows and the frame it returns. Every
  exception of the \<open>try\<close> block is an \<open>Exception\<close> and is caught at line 88.\<close>

definition load_data :: "pandas \<Rightarrow> sampler \<Rightarrow> (string \<Rightarrow> error + frame) \<Rightarrow> message list \<times> frame" where
  "load_data lib smp fs =
     (case load_data_try lib fs of
        Inr (Some df) \<Rightarrow> ([], df)
      | Inr None \<Rightarrow>
          ([St_warning ''Data file not found. Using sample data for demonstration.''],
           create_sample_data smp)
      | Inl e \<Rightarrow> ([St_error ''Error loading data: '' e], create_sample_data smp))"

section \<open>The filters\<close>

text \<open>
  The state of the sidebar widgets: the dates of the range picker (a tuple of up to two
  dates, each a day number since 1970-01-01), the values picked in the three
  multiselects, and the two select boxes.
\<close>

record widgets =
  date_range :: "int list"
  title_pick :: "cell list"
  city_pick :: "cell list"
  company_pick :: "cell list"
  hired_filter :: string
  easy_filter :: string

definition ns_per_day :: int where
  "ns_per_day = 86400000000000"

text \<open>\<open>.dt.date\<close> of a timestamp: its day number.\<close>

definition dt_date :: "int \<Rightarrow> int" where
  "dt_date t = t div ns_per_day"

text \<open>Lines 173 to 181: without a Company column nothing is selected.\<close>

definition selected_company :: "frame \<Rightarrow> widgets \<Rightarrow> cell list" where
  "selected_company df w = (if ''Company'' \<in> set (columns df) then company_pick w else [])"

text \<open>The mask of lines 197 and 198; a comparison with \<open>NaT\<close> is false.\<close>

definition date_mask :: "int \<Rightarrow> int \<Rightarrow> lrow \<Rightarrow> bool" where
  "date_mask start_date end_date r =
     (case cell_at r ''Date'' of
        Stamp t \<Rightarrow> dt_date t \<ge> start_date \<and> dt_date t \<le> end_date
      | _ \<Rightarrow> False)"

definition isin :: "string \<Rightarrow> cell list \<Rightarrow> lrow \<Rightarrow> bool" where
  "isin c selected r = (cell_at r c \<in> set selected)"

definition filtered_df :: "frame \<Rightarrow> widgets \<Rightarrow> lrow list" where
  "filtered_df df w =
     (let f0 = rows df;
          f1 = (if length (date_range w) = 2
                then filter (date_mask (date_range w ! 0) (date_range w ! 1)) f0
                else f0);
          f2 = (if title_pick w \<noteq> [] then filter (isin ''Job Title'' (title_pick w)) f1 else f1);
          f3 = (if city_pick w \<noteq> [] then filter (isin ''City'' (city_pick w)) f2 else f2);
          f4 = (if selected_company df w \<noteq> []
                then filter (isin ''Company'' (selected_company df w)) f3 else f3);
          f5 = (if hired_filter w \<noteq> ''All''
                then filter (\<lambda>r. cell_at r ''Hired'' = Str (hired_filter w)) f4 else f4);
          f6 = (if easy_filter w \<noteq> ''All''
                then filter (\<lambda>r. cell_at r ''Easy Apply'' = Str (easy_filter w)) f5 else f5)
      in f6)"

section \<open>The default date range\<close>

text \<open>\<open>Series.min()\<close> and \<open>Series.max()\<close> of a datetime column skip \<open>NaT\<close>; of a column
  with no timestamp they are \<open>NaT\<close> (\<open>None\<close> here).\<close>

definition stamps :: "cell list \<Rightarrow> int list" where
  "stamps cs = List.map_filter (\<lambda>c. case c of Stamp t \<Rightarrow> Some t | _ \<Rightarrow> None) cs"

definition series_min :: "cell list \<Rightarrow> int option" where
  "series_min cs = (case stamps cs of [] \<Rightarrow> None | t # ts \<Rightarrow> Some (fold min ts t))"

definition series_max :: "cell list \<Rightarrow> int option" where
  "series_max cs = (case stamps cs of [] \<Rightarrow> None | t # ts \<Rightarrow> Some (fold max ts t))"

text \<open>Lines 146 and 147, the value the range picker starts with.\<close>

definition min_date :: "frame \<Rightarrow> int option" where
  "min_date df = map_option dt_date (series_min (col ''Date'' (rows df)))"

definition max_date :: "frame \<Rightarrow> int option" where
  "max_date df = map_option dt_date (series_max (col ''Date'' (rows df)))"

section \<open>Key performance indicators\<close>

text \<open>
  \<open>value_counts()\<close>: the distinct values that are not missing, each with the number of
  its occurrences, by descending count (pandas leaves the order of equal counts open;
  here it is the order of first appearance). With \<open>normalize=True\<close> each count is
  divided by the number of values that are not missing. Rates are real numbers here,
  where Python computes in binary floating point.
\<close>

definition unique :: "cell list \<Rightarrow> cell list" where
  "unique cs = rev (remdups (rev cs))"

definition value_counts :: "cell list \<Rightarrow> (cell \<times> nat) list" where
  "value_counts cs =
     (let vs = filter (\<lambda>c. \<not> isna c) cs
      in sort_key (\<lambda>p. - int (snd p)) (map (\<lambda>v. (v, count_list vs v)) (unique vs)))"

definition value_counts_normalize :: "cell list \<Rightarrow> (cell \<times> real) list" where
  "value_counts_normalize cs =
     (let vs = filter (\<lambda>c. \<not> isna c) cs
      in map (\<lambda>p. (fst p, real (snd p) / real (length vs))) (value_counts cs))"

text \<open>\<open>Series.get(key, default)\<close>.\<close>

definition series_get :: "(cell \<times> 'a) list \<Rightarrow> cell \<Rightarrow> 'a \<Rightarrow> 'a" where
  "series_get s k d = (case map_of s k of Some v \<Rightarrow> v | None \<Rightarrow> d)"

definition hired_pct :: "lrow list \<Rightarrow> real" where
  "hired_pct fd = series_get (value_counts_normalize (col ''Hired'' fd)) (Str ''Yes'') 0 * 100"

definition easy_pct :: "lrow list \<Rightarrow> real" where
  "easy_pct fd =
     series_get (value_counts_normalize (col ''Easy Apply'' fd)) (Str ''Yes'') 0 * 100"

text \<open>
  Line 251. \<open>(max - min).days\<close> is the whole number of days in the difference of two
  timestamps, and \<open>nan\<close> (\<open>None\<close>) when one of them is \<open>NaT\<close>; Python's \<open>max(1, nan)\<close> is 1,
  since \<open>nan > 1\<close> is false; \<open>/\<close> raises ZeroDivisionError on a zero divisor.
\<close>

definition timedelta_days :: "int option \<Rightarrow> int option \<Rightarrow> int option" where
  "timedelta_days a b =
     (case a of None \<Rightarrow> None
      | Some x \<Rightarrow> (case b of None \<Rightarrow> None | Some y \<Rightarrow> Some ((x - y) div ns_per_day)))"

definition py_max :: "int \<Rightarrow> int option \<Rightarrow> int" where
  "py_max a b = (case b of None \<Rightarrow> a | Some d \<Rightarrow> (if d > a then d else a))"

definition py_truediv :: "nat \<Rightarrow> int \<Rightarrow> error + real" where
  "py_truediv a b = (if b = 0 then Inl ZeroDivisionError else Inr (real a / real_of_int b))"

definition span_days :: "lrow list \<Rightarrow> int option" where
  "span_days fd =
     timedelta_days (series_max (col ''Date'' fd)) (series_min (col ''Date'' fd))"

definition avg_jobs_per_day :: "lrow list \<Rightarrow> error + real" where
  "avg_jobs_per_day fd = py_truediv (length fd) (py_max 1 (span_days fd))"

text \<open>Lines 218 to 256: the warning for an empty selection, the four indicators
  otherwise.\<close>

record kpis =
  total_jobs :: nat
  hired_rate :: real
  easy_rate :: real
  jobs_per_day :: real

definition main_dashboard :: "lrow list \<Rightarrow> error + (message + kpis)" where
  "main_dashboard fd =
     (if length fd = 0
      then Inr (Inl (St_warning
             ''No data matches your selected filters. Please adjust your criteria.''))
      else
        (case avg_jobs_per_day fd of
           Inl e \<Rightarrow> Inl e
         | Inr a \<Rightarrow>
             Inr (Inr \<lparr>total_jobs = length fd, hired_rate = hired_pct fd,
                       easy_rate = easy_pct fd, jobs_per_day = a\<rparr>)))"

section \<open>The weekly pattern\<close>

definition day_names :: "string list" where
  "day_names =
     [''Monday'', ''Tuesday'', ''Wednesday'', ''Thursday'', ''Friday'', ''Saturday'',
      ''Sunday'']"

text \<open>\<open>.dt.day_name()\<close>: 1970-01-01, day number 0, was a Thursday.\<close>

definition day_name :: "int \<Rightarrow> string" where
  "day_name t = day_names ! nat ((dt_date t + 3) mod 7)"

definition dt_day_name :: "cell \<Rightarrow> cell" where
  "dt_day_name c = (case c of Stamp t \<Rightarrow> Str (day_name t) | _ \<Rightarrow> NaN)"

text \<open>\<open>Series.reindex(labels)\<close> with no \<open>fill_value\<close>: a label the series does not have
  gets \<open>NaN\<close> (\<open>None\<close> here).\<close>

definition reindex :: "(cell \<times> nat) list \<Rightarrow> cell list \<Rightarrow> (cell \<times> nat option) list" where
  "reindex s labels = map (\<lambda>l. (l, map_of s l)) labels"

definition daily_pattern :: "lrow list \<Rightarrow> (cell \<times> nat option) list" where
  "daily_pattern fd =
     reindex (value_counts (map dt_day_name (col ''Date'' fd))) (map Str day_names)"

text \<open>
  Lines 357 to 368 run before the weekly pattern. The crosstab has one column for each
  hired value of the rows in which neither flag is missing (in sorted order, which plays
  no role here), and \<open>px.bar(..., y=['No', 'Yes'])\<close> raises ValueError unless both are
  among them: lines 390 to 393 are reached only for rows on which this chart is drawn.
\<close>

definition crosstab_columns :: "lrow list \<Rightarrow> cell list" where
  "crosstab_columns fd =
     unique (col ''Hired''
       (filter (\<lambda>r. \<not> isna (cell_at r ''Easy Apply'') \<and> \<not> isna (cell_at r ''Hired'')) fd))"

definition draws_success_rate_chart :: "lrow list \<Rightarrow> bool" where
  "draws_success_rate_chart fd =
     (Str ''No'' \<in> set (crosstab_columns fd) \<and> Str ''Yes'' \<in> set (crosstab_columns fd))"

section \<open>The properties to be proved\<close>

text \<open>
  The filter contract in the specification's words: a row passes when it satisfies every
  active filter. The date filter is active when the picker holds two dates, a multiselect
  when something is selected in it, a select box when it does not show \<open>All\<close>.
\<close>

definition satisfies_active_filters :: "frame \<Rightarrow> widgets \<Rightarrow> lrow \<Rightarrow> bool" where
  "satisfies_active_filters df w r =
     ((length (date_range w) = 2 \<longrightarrow>
         (\<exists>t. cell_at r ''Date'' = Stamp t \<and> date_range w ! 0 \<le> dt_date t \<and>
              dt_date t \<le> date_range w ! 1)) \<and>
      (title_pick w \<noteq> [] \<longrightarrow> cell_at r ''Job Title'' \<in> set (title_pick w)) \<and>
      (city_pick w \<noteq> [] \<longrightarrow> cell_at r ''City'' \<in> set (city_pick w)) \<and>
      (selected_company df w \<noteq> [] \<longrightarrow>
         cell_at r ''Company'' \<in> set (selected_company df w)) \<and>
      (hired_filter w \<noteq> ''All'' \<longrightarrow> cell_at r ''Hired'' = Str (hired_filter w)) \<and>
      (easy_filter w \<noteq> ''All'' \<longrightarrow> cell_at r ''Easy Apply'' = Str (easy_filter w)))"

text \<open>
  The loader's contract, row by row: which rows of the file \<open>df\<close> are kept (the date
  parses, the title is a text), and how a kept row \<open>r\<close> appears in the loaded frame, as
  \<open>r'\<close>: same label, parsed date, stripped title, city cut at the first comma, and the
  hired and easy apply cells as \<open>astype(str)\<close> leaves them.
\<close>

definition kept_at_load :: "pandas \<Rightarrow> frame \<Rightarrow> lrow \<Rightarrow> bool" where
  "kept_at_load lib df r =
     (to_datetime lib (col ''Date'' (rows df)) (cell_at r ''Date'') \<noteq> NaN \<and>
      (''Job Title'' \<in> set (columns df) \<longrightarrow> (\<exists>s. cell_at r ''Job Title'' = Str s)))"

definition normalized :: "pandas \<Rightarrow> frame \<Rightarrow> lrow \<Rightarrow> lrow \<Rightarrow> bool" where
  "normalized lib df r r' =
     (fst r' = fst r \<and>
      cell_at r' ''Date'' = to_datetime lib (col ''Date'' (rows df)) (cell_at r ''Date'') \<and>
      cell_at r' ''Job Title'' =
        (if ''Job Title'' \<in> set (columns df) then str_strip (cell_at r ''Job Title'')
         else Str ''Data Analyst'') \<and>
      cell_at r' ''City'' =
        (if ''Job Location'' \<in> set (columns df)
         then str_split_first (cell_at r ''Job Location'')
         else Str ''Unknown'') \<and>
      cell_at r' ''Hired'' =
        (if ''Hired'' \<in> set (columns df) then astype_str lib (cell_at r ''Hired'')
         else Str ''No'') \<and>
      cell_at r' ''Easy Apply'' =
        (if ''Easy Apply'' \<in> set (columns df) then astype_str lib (cell_at r ''Easy Apply'')
         else Str ''No''))"

text \<open>
  What the loader does to the two flags and the title of a kept row \<open>r\<close> of the file \<open>df\<close>,
  as far as it does not depend on the version of pandas: a text is kept as it is read,
  a value that is not missing becomes a text, and a column the file does not have is
  filled with \<open>No\<close> (with \<open>Data Analyst\<close> for the title); a title is stripped.
\<close>

definition flag_as_read :: "string \<Rightarrow> frame \<Rightarrow> lrow \<Rightarrow> lrow \<Rightarrow> bool" where
  "flag_as_read c df r r' =
     (if c \<in> set (columns df)
      then (\<forall>s. cell_at r c = Str s \<longrightarrow> cell_at r' c = Str s) \<and>
           (cell_at r c \<noteq> NaN \<longrightarrow> (\<exists>s. cell_at r' c = Str s))
      else cell_at r' c = Str ''No'')"

definition flags_as_read :: "frame \<Rightarrow> lrow \<Rightarrow> lrow \<Rightarrow> bool" where
  "flags_as_read df r r' =
     (fst r' = fst r \<and> flag_as_read ''Hired'' df r r' \<and> flag_as_read ''Easy Apply'' df r r' \<and>
      (if ''Job Title'' \<in> set (columns df)
       then \<forall>s. cell_at r ''Job Title'' = Str s \<longrightarrow> cell_at r' ''Job Title'' = Str (strip s)
       else cell_at r' ''Job Title'' = Str ''Data Analyst''))"

section \<open>Example data\<close>

text \<open>A loaded frame of three postings, dated 2023-01-02 (a Monday), 2023-01-03 and
  2023-03-15, and a state of the widgets.\<close>

definition posting :: "int \<Rightarrow> string \<Rightarrow> string \<Rightarrow> string \<Rightarrow> string \<Rightarrow> string \<Rightarrow> row" where
  "posting date title city company hired easy =
     (\<lambda>_. NaN)
       (''Date'' := Stamp date, ''Job Title'' := Str title, ''City'' := Str city,
        ''Company'' := Str company, ''Hired'' := Str hired, ''Easy Apply'' := Str easy)"

definition example_frame :: frame where
  "example_frame =
     \<lparr>columns = [''Date'', ''Job Title'', ''City'', ''Company'', ''Hired'', ''Easy Apply''],
      rows =
        [(0, posting 1672617600000000000 ''Data Analyst'' ''Boston'' ''Google'' ''Yes'' ''No''),
         (1, posting 1672704000000000000 ''Data Scientist'' ''Austin'' ''Google'' ''No'' ''Yes''),
         (2, posting 1678838400000000000 ''Data Analyst'' ''Boston'' ''Tesla'' ''No'' ''Yes'')]\<rparr>"

definition example_widgets :: widgets where
  "example_widgets =
     \<lparr>date_range = [19359, 19400], title_pick = [Str ''Data Analyst''], city_pick = [],
      company_pick = [Str ''Google'', Str ''Tesla''], hired_filter = ''Yes'',
      easy_filter = ''All''\<rparr>"

text \<open>
  A spreadsheet of three rows under the first candidate name: the second row has a date
  that does not parse, the third a title of blanks and no Hired value. The example
  parser knows the two dates of the sheet; \<open>.str\<close> accepts a column that holds a text;
  \<open>.astype(str)\<close> leaves a missing cell missing, as pandas 3 does.
\<close>

definition sheet_row :: "cell \<Rightarrow> cell \<Rightarrow> cell \<Rightarrow> cell \<Rightarrow> row" where
  "sheet_row date title location hired =
     (\<lambda>_. NaN)
       (''Date'' := date, ''Job Title'' := title, ''Job Location'' := location,
        ''Hired'' := hired)"

definition example_sheet :: frame where
  "example_sheet =
     \<lparr>columns = [''Date'', ''Job Title'', ''Job Location'', ''Hired''],
      rows =
        [(0, sheet_row (Str ''2023-01-02'') (Str ''  Data Analyst '') (Str ''Boston, MA'')
               (Str ''Maybe'')),
         (1, sheet_row (Str ''soon'') (Str ''Data Scientist'') (Str ''Austin, TX'')
               (Str ''Yes'')),
         (2, sheet_row (Str ''2023-01-03'') (Str ''   '') (Str ''Denver, CO'') NaN)]\<rparr>"

definition example_fs :: "string \<Rightarrow> error + frame" where
  "example_fs file_name =
     (if file_name = ''DataAnalystjobs2023.xlsx'' then Inr example_sheet
      else Inl FileNotFoundError)"

definition is_text :: "cell \<Rightarrow> bool" where
  "is_text c = (case c of Str _ \<Rightarrow> True | _ \<Rightarrow> False)"

definition example_pandas :: pandas where
  "example_pandas =
     \<lparr>parse_date =
        (\<lambda>column c.
           if c = Str ''2023-01-02'' then Some 1672617600000000000
           else if c = Str ''2023-01-03'' then Some 1672704000000000000
           else None),
      str_accessor = list_ex is_text,
      py_str = (\<lambda>c. case c of Num n \<Rightarrow> (if n = 1 then ''1'' else ''0'') | _ \<Rightarrow> []),
      astype_str_missing = NaN\<rparr>"

text \<open>
  A second spreadsheet, of three rows whose dates parse, with \<open>Yes\<close>, \<open>No\<close> and an empty
  cell in the Hired column, and the state of the widgets when the page opens on either
  sheet: the two dates of the loaded frame, nothing selected, both boxes on \<open>All\<close>.
\<close>

definition example_sheet_hired :: frame where
  "example_sheet_hired =
     \<lparr>columns = [''Date'', ''Job Title'', ''Job Location'', ''Hired''],
      rows =
        [(0, sheet_row (Str ''2023-01-02'') (Str ''Data Analyst'') (Str ''Boston, MA'')
               (Str ''Yes'')),
         (1, sheet_row (Str ''2023-01-03'') (Str ''Data Scientist'') (Str ''Austin, TX'')
               (Str ''No'')),
         (2, sheet_row (Str ''2023-01-03'') (Str ''Data Analyst'') (Str ''Denver, CO'') NaN)]\<rparr>"

definition example_fs_hired :: "string \<Rightarrow> error + frame" where
  "example_fs_hired file_name =
     (if file_name = ''DataAnalystjobs2023.xlsx'' then Inr example_sheet_hired
      else Inl FileNotFoundError)"

definition example_initial :: widgets where
  "example_initial =
     \<lparr>date_range = [19359, 19360], title_pick = [], city_pick = [], company_pick = [],
      hired_filter = ''All'', easy_filter = ''All''\<rparr>"

definition example_sampler :: sampler where
  "example_sampler =
     \<lparr>title_draw = (\<lambda>i. i), company_draw = (\<lambda>i. i), city_draw = (\<lambda>i. i),
      location_city_draw = (\<lambda>i. i), location_state_draw = (\<lambda>i. i),
      sample_date = (\<lambda>i. 1672531200000000000 + int i * 31480000000000),
      hired_draw = (\<lambda>i. i), easy_draw = (\<lambda>i. i),
      salary_min_draw = (\<lambda>i. i), salary_max_draw = (\<lambda>i. i)\<rparr>"

section \<open>Frames and rows\<close>

lemma cell_at_set_cell: "cell_at (set_cell c v r) c' = (if c' = c then v else cell_at r c')"
  by (simp add: cell_at_def set_cell_def)

lemma fst_set_cell: "fst (set_cell c v r) = fst r"
  by (simp add: set_cell_def)

lemma rows_assign: "rows (assign c f df) = map (\<lambda>r. set_cell c (f r) r) (rows df)"
  by (simp add: assign_def)

lemma columns_assign: "set (columns (assign c f df)) = insert c (set (columns df))"
  by (auto simp add: assign_def)

lemma rows_dropna:
  "rows (dropna cs df) = filter (\<lambda>r. \<forall>c \<in> set cs. \<not> isna (cell_at r c)) (rows df)"
  by (simp add: dropna_def)

section \<open>The filter pipeline is one filter\<close>

lemma date_mask_iff:
  "date_mask a b r = (\<exists>t. cell_at r ''Date'' = Stamp t \<and> a \<le> dt_date t \<and> dt_date t \<le> b)"
  by (auto simp add: date_mask_def split: cell.splits)

lemma if_filter: "(if c then filter P xs else xs) = filter (\<lambda>r. c \<longrightarrow> P r) xs"
  by simp

lemma filtered_df_filter: "filtered_df df w = filter (satisfies_active_filters df w) (rows df)"
proof -
  have "filtered_df df w =
      filter (\<lambda>r. easy_filter w \<noteq> ''All'' \<longrightarrow> cell_at r ''Easy Apply'' = Str (easy_filter w))
       (filter (\<lambda>r. hired_filter w \<noteq> ''All'' \<longrightarrow> cell_at r ''Hired'' = Str (hired_filter w))
        (filter (\<lambda>r. selected_company df w \<noteq> [] \<longrightarrow>
                   isin ''Company'' (selected_company df w) r)
         (filter (\<lambda>r. city_pick w \<noteq> [] \<longrightarrow> isin ''City'' (city_pick w) r)
          (filter (\<lambda>r. title_pick w \<noteq> [] \<longrightarrow> isin ''Job Title'' (title_pick w) r)
           (filter (\<lambda>r. length (date_range w) = 2 \<longrightarrow>
                      date_mask (date_range w ! 0) (date_range w ! 1) r) (rows df))))))"
    unfolding filtered_df_def Let_def if_filter ..
  also have "\<dots> = filter (satisfies_active_filters df w) (rows df)"
    unfolding filter_filter satisfies_active_filters_def date_mask_iff isin_def
    by (rule filter_cong) blast+
  finally show ?thesis .
qed

section \<open>What the loader returns\<close>

lemma to_datetime_cases: "to_datetime lib column c = NaN \<or> (\<exists>t. to_datetime lib column c = Stamp t)"
  by (simp add: to_datetime_def split: cell.splits option.splits)

lemma astype_str_text: "astype_str lib (Str s) = Str s"
  by (simp add: astype_str_def)

lemma astype_str_present: "c \<noteq> NaN \<Longrightarrow> \<exists>s. astype_str lib c = Str s"
  by (simp add: astype_str_def split: cell.splits)

lemma list_all2_map_filter:
  assumes "\<And>x. x \<in> set xs \<Longrightarrow> P (f x) = Q x" and "\<And>x. x \<in> set xs \<Longrightarrow> Q x \<Longrightarrow> R x (f x)"
  shows "list_all2 R (filter Q xs) (filter P (map f xs))"
  using assms by (induction xs) auto

lemma preprocess_rows:
  assumes "preprocess lib df = Inr df'"
  shows "list_all2 (normalized lib df) (filter (kept_at_load lib df) (rows df)) (rows df')"
proof -
  from assms have d: "''Date'' \<in> set (columns df)"
    by (auto simp add: preprocess_def split: if_splits)
  show ?thesis
    using assms d
    apply (simp add: preprocess_def Let_def columns_assign rows_assign rows_dropna
        split: if_splits)
    apply (erule subst)
    apply (simp add: rows_dropna rows_assign comp_def)
    apply (rule list_all2_map_filter)
     apply (auto simp add: cell_at_set_cell fst_set_cell isna_def kept_at_load_def normalized_def col_def
        str_strip_def split: cell.splits)
    done
qed


lemma load_data_cases:
  "(\<exists>df df'. read_first fs possible_files = Inr (Some df) \<and> preprocess lib df = Inr df' \<and>
       load_data lib smp fs = ([], df')) \<or>
   (\<exists>m. load_data lib smp fs = ([m], create_sample_data smp))"
  by (simp add: load_data_def load_data_try_def split: sum.splits option.splits)

lemma choice_in: "xs \<noteq> [] \<Longrightarrow> choice xs d \<in> set xs"
  by (simp add: choice_def)

lemma strip_job_titles: "t \<in> set job_titles \<Longrightarrow> strip t = t"
  by (auto simp add: job_titles_def strip_def is_space_def)

lemma yes_no_cases: "choice yes_no d = ''Yes'' \<or> choice yes_no d = ''No''"
  using choice_in [of yes_no d] by (auto simp add: yes_no_def)

lemma sample_rows:
  assumes "r \<in> set (rows (create_sample_data smp))"
  shows "(\<exists>t. cell_at r ''Date'' = Stamp t) \<and>
         (\<exists>s. cell_at r ''Job Title'' = Str s \<and> s \<in> set job_titles) \<and>
         (cell_at r ''Hired'' = Str ''Yes'' \<or> cell_at r ''Hired'' = Str ''No'') \<and>
         (cell_at r ''Easy Apply'' = Str ''Yes'' \<or> cell_at r ''Easy Apply'' = Str ''No'')"
proof -
  from assms obtain i where r: "r = (i, sample_row smp i)"
    by (auto simp add: create_sample_data_def)
  have t: "choice job_titles (title_draw smp i) \<in> set job_titles"
    by (rule choice_in) (simp add: job_titles_def)
  show ?thesis
    using t yes_no_cases [of "hired_draw smp i"] yes_no_cases [of "easy_draw smp i"]
    by (simp add: r cell_at_def sample_row_def)
qed


lemma strip_trimmed:
  "strip s = [] \<or> (\<not> is_space (hd (strip s)) \<and> \<not> is_space (last (strip s)))"
proof -
  define u where "u = dropWhile is_space s"
  define v where "v = dropWhile is_space (rev u)"
  have s: "strip s = rev v"
    by (simp add: strip_def u_def v_def)
  have "rev u = takeWhile is_space (rev u) @ v"
    by (simp add: v_def)
  then have u: "u = rev v @ rev (takeWhile is_space (rev u))"
    by (metis rev_append rev_rev_ident)
  show ?thesis
  proof (cases "v = []")
    case True
    then show ?thesis by (simp add: s)
  next
    case False
    then have l: "\<not> is_space (hd v)"
      unfolding v_def by (rule hd_dropWhile)
    from False u have "hd u = hd (rev v)" and "u \<noteq> []"
      by (metis hd_append2 rev_is_Nil_conv, metis append_is_Nil_conv rev_is_Nil_conv)
    moreover from \<open>u \<noteq> []\<close> have "\<not> is_space (hd u)"
      unfolding u_def by (rule hd_dropWhile)
    ultimately show ?thesis
      using l False by (simp add: s last_rev)
  qed
qed

lemma set_stamps: "set (stamps cs) = {t. Stamp t \<in> set cs}"
  by (induction cs) (auto simp add: stamps_def List.map_filter_simps split: cell.splits)

lemma series_min_Some:
  assumes "Stamp t \<in> set cs"
  shows "\<exists>m. series_min cs = Some m \<and> m \<le> t \<and> Stamp m \<in> set cs"
proof -
  from assms have ne: "stamps cs \<noteq> []"
    using set_stamps [of cs] by auto
  then obtain x xs where x: "stamps cs = x # xs"
    by (cases "stamps cs") auto
  have m: "fold min xs x = Min (set (x # xs))"
    by (simp only: Min.set_eq_fold)
  have "Min (set (x # xs)) \<in> set (x # xs)"
    by (rule Min_in) auto
  moreover have "t \<in> set (x # xs)"
    using assms set_stamps [of cs] x by auto
  then have "Min (set (x # xs)) \<le> t"
    by (intro Min_le) auto
  ultimately show ?thesis
    using set_stamps [of cs] by (auto simp add: series_min_def x m)
qed

lemma series_max_Some:
  assumes "Stamp t \<in> set cs"
  shows "\<exists>m. series_max cs = Some m \<and> t \<le> m \<and> Stamp m \<in> set cs"
proof -
  from assms have ne: "stamps cs \<noteq> []"
    using set_stamps [of cs] by auto
  then obtain x xs where x: "stamps cs = x # xs"
    by (cases "stamps cs") auto
  have m: "fold max xs x = Max (set (x # xs))"
    by (simp only: Max.set_eq_fold)
  have "Max (set (x # xs)) \<in> set (x # xs)"
    by (rule Max_in) auto
  moreover have "t \<in> set (x # xs)"
    using assms set_stamps [of cs] x by auto
  then have "t \<le> Max (set (x # xs))"
    by (intro Max_ge) auto
  ultimately show ?thesis
    using set_stamps [of cs] by (auto simp add: series_max_def x m)
qed

lemma dt_date_mono: "a \<le> b \<Longrightarrow> dt_date a \<le> dt_date b"
  by (simp add: dt_date_def ns_per_day_def zdiv_mono1)

lemma list_all2_right: "list_all2 R xs ys \<Longrightarrow> y \<in> set ys \<Longrightarrow> \<exists>x \<in> set xs. R x y"
  by (induction rule: list_all2_induct) auto

lemma loaded_rows:
  assumes "r \<in> set (rows (snd (load_data lib smp fs)))"
  shows "(\<exists>t. cell_at r ''Date'' = Stamp t) \<and>
         (\<exists>s. cell_at r ''Job Title'' = Str s \<and>
              (s = [] \<or> (\<not> is_space (hd s) \<and> \<not> is_space (last s))))"
proof -
  consider (loaded) df df' where "read_first fs possible_files = Inr (Some df)"
      "preprocess lib df = Inr df'" "load_data lib smp fs = ([], df')"
    | (fallback) m where "load_data lib smp fs = ([m], create_sample_data smp)"
    using load_data_cases [of fs lib smp] by blast
  then show ?thesis
  proof cases
    case loaded
    from assms loaded(3) have "r \<in> set (rows df')"
      by simp
    from list_all2_right [OF preprocess_rows [OF loaded(2)] this]
    obtain r0 where r0: "kept_at_load lib df r0" "normalized lib df r0 r"
      by auto
    have d: "\<exists>t. cell_at r ''Date'' = Stamp t"
      using r0 to_datetime_cases [of lib "col ''Date'' (rows df)" "cell_at r0 ''Date''"]
      by (auto simp add: kept_at_load_def normalized_def)
    have t: "\<exists>s. cell_at r ''Job Title'' = Str s \<and>
              (s = [] \<or> (\<not> is_space (hd s) \<and> \<not> is_space (last s)))"
    proof (cases "''Job Title'' \<in> set (columns df)")
      case True
      with r0 obtain s where "cell_at r0 ''Job Title'' = Str s"
        by (auto simp add: kept_at_load_def)
      with True r0 have "cell_at r ''Job Title'' = Str (strip s)"
        by (simp add: normalized_def str_strip_def)
      with strip_trimmed [of s] show ?thesis
        by auto
    next
      case False
      with r0 have "cell_at r ''Job Title'' = Str ''Data Analyst''"
        by (simp add: normalized_def)
      then show ?thesis
        by (simp add: is_space_def)
    qed
    from d t show ?thesis
      by blast
  next
    case fallback
    with assms have "r \<in> set (rows (create_sample_data smp))"
      by simp
    from sample_rows [OF this] show ?thesis
      using strip_trimmed strip_job_titles by metis
  qed
qed

section \<open>The example spreadsheet, loaded\<close>

lemmas loader_simps =
  load_data_def load_data_try_def possible_files_def example_fs_def example_sheet_def
  example_pandas_def sheet_row_def preprocess_def assign_def dropna_def col_def cell_at_def
  set_cell_def to_datetime_def str_split_first_def str_strip_def astype_str_def isna_def
  is_text_def strip_def is_space_def Let_def

lemma example_load_labels:
  "map fst (rows (snd (load_data example_pandas example_sampler example_fs))) = [0, 2]"
  by (simp add: loader_simps)

lemma example_load_titles:
  "map (\<lambda>r. cell_at r ''Job Title'') (rows (snd (load_data example_pandas example_sampler example_fs))) = [Str ''Data Analyst'', Str '''']"
  by (simp add: loader_simps)

lemma example_load_hired:
  "map (\<lambda>r. cell_at r ''Hired'')
     (rows (snd (load_data example_pandas example_sampler example_fs))) =
   [Str ''Maybe'', NaN]"
  by (simp add: loader_simps)

lemma example_load_dates:
  "map (\<lambda>r. cell_at r ''Date'')
     (rows (snd (load_data example_pandas example_sampler example_fs))) =
   [Stamp 1672617600000000000, Stamp 1672704000000000000]"
  by (simp add: loader_simps)

lemma list_all2_labels:
  "list_all2 (normalized lib df) xs ys \<Longrightarrow> map fst ys = map fst xs"
  by (induction rule: list_all2_induct) (auto simp add: normalized_def)

lemma load_data_loaded:
  "read_first fs possible_files = Inr (Some df) \<Longrightarrow> preprocess lib df = Inr df' \<Longrightarrow>
   load_data lib smp fs = ([], df')"
  by (simp add: load_data_def load_data_try_def)

lemma example_read: "read_first example_fs possible_files = Inr (Some example_sheet)"
  by (simp add: possible_files_def example_fs_def)

lemma example_preprocess:
  "preprocess example_pandas example_sheet =
     Inr (snd (load_data example_pandas example_sampler example_fs))"
  by (simp add: load_data_def load_data_try_def example_read)
     (simp add: loader_simps)

lemma normalized_flags: "normalized lib df r r' \<Longrightarrow> flags_as_read df r r'"
  using astype_str_present [of "cell_at r ''Hired''" lib]
    astype_str_present [of "cell_at r ''Easy Apply''" lib]
  by (auto simp add: normalized_def flags_as_read_def flag_as_read_def astype_str_text
      str_strip_def)

lemma preprocess_flags:
  assumes "preprocess lib df = Inr df'"
  shows "list_all2 (flags_as_read df) (filter (kept_at_load lib df) (rows df)) (rows df')"
  using preprocess_rows [OF assms] by (rule list_all2_mono) (rule normalized_flags)

lemma read_first_dropWhile:
  "read_first fs names =
     (case dropWhile (\<lambda>f. fs f = Inl FileNotFoundError) names of
        [] \<Rightarrow> Inr None
      | f # _ \<Rightarrow> (case fs f of Inr df \<Rightarrow> Inr (Some df) | Inl e \<Rightarrow> Inl e))"
  by (induction names) (auto split: sum.splits error.splits)

section \<open>Counting values\<close>

lemma map_of_value_counts:
  "map_of (value_counts cs) k =
     (if k \<in> set cs \<and> k \<noteq> NaN then Some (count_list (filter (\<lambda>c. \<not> isna c) cs) k) else None)"
proof -
  define vs where "vs = filter (\<lambda>c. \<not> isna c) cs"
  define xs where "xs = map (\<lambda>v. (v, count_list vs v)) (unique vs)"
  have fst_xs: "map fst xs = unique vs"
    by (simp add: xs_def comp_def)
  have d: "distinct (map fst xs)"
    by (simp add: fst_xs unique_def)
  have "distinct (map fst (sort_key (\<lambda>p. - int (snd p)) xs))"
    using d by (simp add: distinct_map)
  with d have "map_of (sort_key (\<lambda>p. - int (snd p)) xs) = map_of xs"
    by (simp add: map_of_inject_set)
  moreover have "map_of xs = (Some \<circ> count_list vs) |` set (unique vs)"
    unfolding xs_def by (rule map_of_map_restrict)
  moreover have "set (unique vs) = {c \<in> set cs. c \<noteq> NaN}"
    by (auto simp add: unique_def vs_def isna_def)
  moreover have "value_counts cs = sort_key (\<lambda>p. - int (snd p)) xs"
    by (simp add: value_counts_def xs_def vs_def Let_def)
  ultimately show ?thesis
    by (simp add: restrict_map_def vs_def)
qed

lemma count_list_filter: "P k \<Longrightarrow> count_list (filter P cs) k = count_list cs k"
  by (induction cs) auto

lemma map_of_value_counts_text:
  "map_of (value_counts cs) (Str s) =
     (if count_list cs (Str s) = 0 then None else Some (count_list cs (Str s)))"
  by (simp add: map_of_value_counts count_list_filter isna_def count_list_0_iff)

lemma count_list_col:
  "count_list (col c fd) v = length (filter (\<lambda>r. cell_at r c = v) fd)"
  by (induction fd) (auto simp add: col_def)

lemma map_of_map_snd: "map_of (map (\<lambda>p. (fst p, g (snd p))) xs) k = map_option g (map_of xs k)"
  by (induction xs) auto

lemma series_get_normalize:
  "series_get (value_counts_normalize cs) (Str s) 0 =
     real (count_list cs (Str s)) / real (length (filter (\<lambda>c. \<not> isna c) cs))"
proof -
  let ?n = "real (length (filter (\<lambda>c. \<not> isna c) cs))"
  have "map_of (value_counts_normalize cs) (Str s) =
      map_option (\<lambda>n. real n / ?n) (map_of (value_counts cs) (Str s))"
    unfolding value_counts_normalize_def Let_def
    by (rule map_of_map_snd [of "\<lambda>n. real n / ?n"])
  then show ?thesis
    by (simp add: series_get_def map_of_value_counts_text)
qed

lemma pct_bounds:
  "0 \<le> series_get (value_counts_normalize cs) (Str s) 0 * 100 \<and>
   series_get (value_counts_normalize cs) (Str s) 0 * 100 \<le> 100"
proof -
  define x where "x = series_get (value_counts_normalize cs) (Str s) 0"
  have "count_list cs (Str s) = count_list (filter (\<lambda>c. \<not> isna c) cs) (Str s)"
    by (simp add: count_list_filter isna_def)
  also have "\<dots> \<le> length (filter (\<lambda>c. \<not> isna c) cs)"
    by (rule count_le_length)
  finally have "real (count_list cs (Str s)) \<le> real (length (filter (\<lambda>c. \<not> isna c) cs))"
    by simp
  then have "x \<le> 1" and "0 \<le> x"
    unfolding x_def series_get_normalize by (simp_all add: divide_le_eq_1)
  then have "0 \<le> x * 100 \<and> x * 100 \<le> 100"
    by simp
  then show ?thesis
    by (simp only: x_def)
qed

lemma filter_notna_col:
  assumes "\<forall>r \<in> set fd. cell_at r c \<noteq> NaN"
  shows "filter (\<lambda>c. \<not> isna c) (col c fd) = col c fd"
  using assms by (simp add: col_def isna_def)

lemma pct_formula:
  assumes "\<forall>r \<in> set fd. cell_at r c \<noteq> NaN"
  shows "series_get (value_counts_normalize (col c fd)) (Str ''Yes'') 0 * 100 =
     (if length fd = 0 then 0
      else real (length (filter (\<lambda>r. cell_at r c = Str ''Yes'') fd)) / real (length fd) * 100)"
  by (simp add: series_get_normalize filter_notna_col [OF assms] count_list_col)
     (simp add: col_def)

lemma py_max_ge: "a \<le> py_max a b"
  by (simp add: py_max_def split: option.splits)

lemma py_max_Some: "py_max a (Some d) = max a d"
  by (simp add: py_max_def max_def)

lemma length_filter_comp: "length (filter P (map f xs)) = length (filter (\<lambda>x. P (f x)) xs)"
  by (induction xs) auto

lemma daily_pattern_nth:
  assumes "i < 7"
  shows "daily_pattern fd ! i =
    (Str (day_names ! i),
     (let n = length (filter (\<lambda>r. dt_day_name (cell_at r ''Date'') = Str (day_names ! i)) fd)
      in if n = 0 then None else Some n))"
proof -
  have l: "length day_names = 7"
    by (simp add: day_names_def)
  have "count_list (map dt_day_name (col ''Date'' fd)) v =
      length (filter (\<lambda>r. dt_day_name (cell_at r ''Date'') = v) fd)" for v
    by (induction fd) (auto simp add: col_def)
  with assms l show ?thesis
    by (simp add: daily_pattern_def reindex_def map_of_value_counts_text Let_def)
qed

lemma pct_present:
  "series_get (value_counts_normalize (col c fd)) (Str s) 0 * 100 =
     (let n = length (filter (\<lambda>r. cell_at r c \<noteq> NaN) fd)
      in if n = 0 then 0
         else real (length (filter (\<lambda>r. cell_at r c = Str s) fd)) / real n * 100)"
proof -
  have "length (filter (\<lambda>c. \<not> isna c) (col c fd)) =
      length (filter (\<lambda>r. cell_at r c \<noteq> NaN) fd)"
    by (simp add: col_def isna_def comp_def)
  then show ?thesis
    by (simp add: series_get_normalize count_list_col Let_def)
qed

lemma example_hired_column:
  "col ''Hired''
     (filtered_df (snd (load_data example_pandas example_sampler example_fs_hired))
        example_initial) =
   [Str ''Yes'', Str ''No'', NaN]"
  by (simp add: filtered_df_filter satisfies_active_filters_def selected_company_def
      example_initial_def dt_date_def ns_per_day_def example_fs_hired_def
      example_sheet_hired_def loader_simps)

lemma example_initial_subset:
  "filtered_df example_frame example_initial = [rows example_frame ! 0, rows example_frame ! 1]"
  by (simp add: filtered_df_filter satisfies_active_filters_def selected_company_def
      example_initial_def example_frame_def posting_def cell_at_def dt_date_def ns_per_day_def)

lemmas kpi_simps =
  col_def series_max_def series_min_def stamps_def

lemma example_day_name_0: "day_name 1672617600000000000 = ''Monday''"
  by (simp add: day_name_def dt_date_def ns_per_day_def day_names_def)

lemma example_day_name_1: "day_name 1672704000000000000 = ''Tuesday''"
  by (simp add: day_name_def dt_date_def ns_per_day_def day_names_def)

lemma example_day_name_2: "day_name 1678838400000000000 = ''Wednesday''"
  by (simp add: day_name_def dt_date_def ns_per_day_def day_names_def)

lemma example_day_names:
  "map (\<lambda>r. dt_day_name (cell_at r ''Date'')) (rows example_frame) =
     [Str ''Monday'', Str ''Tuesday'', Str ''Wednesday'']"
  by (simp add: example_frame_def posting_def cell_at_def dt_day_name_def
      example_day_name_0 example_day_name_1 example_day_name_2)

section \<open>The claims about the filters\<close>

lemmas example_simps =
  example_frame_def example_widgets_def posting_def cell_at_def selected_company_def
  dt_date_def ns_per_day_def

text \<open>
  Claim C1. For every frame and every state of the widgets, the filtered rows are the rows
  of the frame that satisfy every active filter, in their order and with their labels: a
  subsequence of the frame's rows, no longer than it, each of whose rows is a row of the
  frame and satisfies every active filter. The filters combine by conjunction, and a
  filter with nothing selected, or showing All, is skipped.
\<close>

theorem filtered_df_subset_conjunctive:
  "filtered_df df w = filter (satisfies_active_filters df w) (rows df) \<and>
   subseq (filtered_df df w) (rows df) \<and>
   length (filtered_df df w) \<le> length (rows df) \<and>
   (\<forall>r \<in> set (filtered_df df w). r \<in> set (rows df) \<and> satisfies_active_filters df w r)"
proof (intro conjI ballI)
  show eq: "filtered_df df w = filter (satisfies_active_filters df w) (rows df)"
    by (rule filtered_df_filter)
  show "subseq (filtered_df df w) (rows df)"
    unfolding eq by (rule subseq_filter_left)
  show "length (filtered_df df w) \<le> length (rows df)"
    unfolding eq by (rule length_filter_le)
  fix r assume "r \<in> set (filtered_df df w)"
  then show "r \<in> set (rows df)" and "satisfies_active_filters df w r"
    unfolding eq by simp_all
qed

theorem filtered_df_subset_conjunctive_witness:
  "map fst (filtered_df example_frame example_widgets) = [0] \<and>
   subseq (filtered_df example_frame example_widgets) (rows example_frame) \<and>
   satisfies_active_filters example_frame example_widgets (hd (rows example_frame)) \<and>
   \<not> satisfies_active_filters example_frame example_widgets (rows example_frame ! 1)"
  using filtered_df_subset_conjunctive [of example_frame example_widgets]
  by (simp add: satisfies_active_filters_def example_simps)

text \<open>
  Claim C2. With nothing selected in the three multiselects, both select boxes on All and
  the date range at its initial value, from the earliest to the latest date of the frame,
  the filters return every row of the frame, unchanged and in order. This holds for the
  frame \<open>load_data\<close> returns, whatever the files, and for any frame whose dates are all
  timestamps; the script runs the filters on a frame that is not empty (line 140).
\<close>

theorem default_filters_return_full_frame:
  assumes "rows df \<noteq> []"
    and "df = snd (load_data lib smp fs) \<or>
         (\<forall>r \<in> set (rows df). \<exists>t. cell_at r ''Date'' = Stamp t)"
  shows "\<exists>lo hi. min_date df = Some lo \<and> max_date df = Some hi \<and>
     filtered_df df \<lparr>date_range = [lo, hi], title_pick = [], city_pick = [],
        company_pick = [], hired_filter = ''All'', easy_filter = ''All''\<rparr> = rows df"
proof -
  have dates: "\<exists>t. cell_at r ''Date'' = Stamp t" if "r \<in> set (rows df)" for r
  proof -
    from assms(2) show ?thesis
    proof
      assume "df = snd (load_data lib smp fs)"
      with that have "r \<in> set (rows (snd (load_data lib smp fs)))"
        by simp
      from loaded_rows [OF this] show ?thesis
        by (rule conjunct1)
    next
      assume "\<forall>r \<in> set (rows df). \<exists>t. cell_at r ''Date'' = Stamp t"
      then show ?thesis
        using that by (rule bspec)
    qed
  qed
  from assms(1) obtain r0 where r0: "r0 \<in> set (rows df)"
    by (cases "rows df") auto
  from dates [OF r0] obtain t0 where "cell_at r0 ''Date'' = Stamp t0" ..
  with r0 have "Stamp t0 \<in> set (col ''Date'' (rows df))"
    unfolding col_def set_map by (metis imageI)
  from series_min_Some [OF this] series_max_Some [OF this]
  obtain lo hi where lo: "series_min (col ''Date'' (rows df)) = Some lo"
    and hi: "series_max (col ''Date'' (rows df)) = Some hi"
    by blast
  let ?w = "\<lparr>date_range = [dt_date lo, dt_date hi], title_pick = [], city_pick = [],
        company_pick = [], hired_filter = ''All'', easy_filter = ''All''\<rparr>"
  have sat: "satisfies_active_filters df ?w r" if r: "r \<in> set (rows df)" for r
  proof -
    from dates [OF r] obtain t where t: "cell_at r ''Date'' = Stamp t" ..
    with r have "Stamp t \<in> set (col ''Date'' (rows df))"
      unfolding col_def set_map by (metis imageI)
    from series_min_Some [OF this] series_max_Some [OF this] lo hi
    have "lo \<le> t" and "t \<le> hi"
      by auto
    then have "dt_date lo \<le> dt_date t" and "dt_date t \<le> dt_date hi"
      by (simp_all only: dt_date_mono)
    then show ?thesis
      by (simp add: satisfies_active_filters_def selected_company_def t)
  qed
  have "filter (satisfies_active_filters df ?w) (rows df) = rows df"
    by (rule filter_True) (simp add: sat)
  then have "filtered_df df ?w = rows df"
    by (simp only: filtered_df_filter)
  with lo hi show ?thesis
    unfolding min_date_def max_date_def by simp
qed

theorem default_filters_return_full_frame_witness:
  "rows (snd (load_data example_pandas example_sampler example_fs)) \<noteq> [] \<and>
   min_date (snd (load_data example_pandas example_sampler example_fs)) = Some 19359 \<and>
   max_date (snd (load_data example_pandas example_sampler example_fs)) = Some 19360 \<and>
   filtered_df (snd (load_data example_pandas example_sampler example_fs))
     \<lparr>date_range = [19359, 19360], title_pick = [], city_pick = [],
        company_pick = [], hired_filter = ''All'', easy_filter = ''All''\<rparr> =
     rows (snd (load_data example_pandas example_sampler example_fs))"
proof -
  let ?df = "snd (load_data example_pandas example_sampler example_fs)"
  have ne: "rows ?df \<noteq> []"
    using example_load_labels by auto
  have lo: "min_date ?df = Some 19359" and hi: "max_date ?df = Some 19360"
    using example_load_dates
    by (simp_all add: min_date_def max_date_def col_def series_min_def series_max_def stamps_def
        List.map_filter_simps dt_date_def ns_per_day_def)
  from default_filters_return_full_frame [OF ne, of example_pandas example_sampler example_fs] lo hi ne
  show ?thesis
    by simp
qed

text \<open>
  Claim C10. The date filter is applied exactly when the range picker holds two dates.
  With fewer (or more) the filters give what they give with no date selected at all, and
  the result does not depend on the dates of the rows: replacing every date by any cell
  replaces the dates in the result and changes nothing else. With two dates the result is
  the date mask applied to that.
\<close>

theorem date_filter_needs_two_endpoints:
  "(length (date_range w) \<noteq> 2 \<longrightarrow>
      filtered_df df w = filtered_df df (w\<lparr>date_range := []\<rparr>) \<and>
      filtered_df (df\<lparr>rows := map (\<lambda>r. set_cell ''Date'' (g r) r) (rows df)\<rparr>) w =
        map (\<lambda>r. set_cell ''Date'' (g r) r) (filtered_df df w)) \<and>
   (length (date_range w) = 2 \<longrightarrow>
      filtered_df df w =
        filter (date_mask (date_range w ! 0) (date_range w ! 1))
          (filtered_df df (w\<lparr>date_range := []\<rparr>)))"
proof (intro conjI impI)
  assume n: "length (date_range w) \<noteq> 2"
  then have "satisfies_active_filters df w =
      satisfies_active_filters df (w\<lparr>date_range := []\<rparr>)"
    by (simp add: satisfies_active_filters_def selected_company_def fun_eq_iff)
  then show "filtered_df df w = filtered_df df (w\<lparr>date_range := []\<rparr>)"
    by (simp add: filtered_df_filter)
  from n have "satisfies_active_filters (df\<lparr>rows := rs\<rparr>) w (set_cell ''Date'' d r) =
      satisfies_active_filters df w r" for r d rs
    by (simp add: satisfies_active_filters_def selected_company_def cell_at_set_cell)
  then show "filtered_df (df\<lparr>rows := map (\<lambda>r. set_cell ''Date'' (g r) r) (rows df)\<rparr>) w =
        map (\<lambda>r. set_cell ''Date'' (g r) r) (filtered_df df w)"
    by (simp add: filtered_df_filter filter_map comp_def)
next
  assume "length (date_range w) = 2"
  then have "satisfies_active_filters df w =
      (\<lambda>r. satisfies_active_filters df (w\<lparr>date_range := []\<rparr>) r \<and>
       date_mask (date_range w ! 0) (date_range w ! 1) r)"
    by (auto simp add: satisfies_active_filters_def selected_company_def date_mask_iff fun_eq_iff)
  then show "filtered_df df w =
        filter (date_mask (date_range w ! 0) (date_range w ! 1))
          (filtered_df df (w\<lparr>date_range := []\<rparr>))"
    by (simp only: filtered_df_filter filter_filter)
qed

theorem date_filter_needs_two_endpoints_witness:
  "map fst (filtered_df example_frame (example_widgets\<lparr>date_range := [19400]\<rparr>)) = [0] \<and>
   filtered_df example_frame (example_widgets\<lparr>date_range := [19400]\<rparr>) =
     filtered_df example_frame (example_widgets\<lparr>date_range := []\<rparr>) \<and>
   filtered_df example_frame (example_widgets\<lparr>date_range := [19400, 19500]\<rparr>) = []"
proof -
  have "length (date_range (example_widgets\<lparr>date_range := [19400]\<rparr>)) \<noteq> 2"
    by simp
  with date_filter_needs_two_endpoints [of "example_widgets\<lparr>date_range := [19400]\<rparr>" example_frame]
  have "filtered_df example_frame (example_widgets\<lparr>date_range := [19400]\<rparr>) =
     filtered_df example_frame (example_widgets\<lparr>date_range := []\<rparr>)"
    by simp
  moreover have
    "map fst (filtered_df example_frame (example_widgets\<lparr>date_range := []\<rparr>)) = [0]"
    by (simp add: filtered_df_filter satisfies_active_filters_def example_simps)
  moreover have
    "filtered_df example_frame (example_widgets\<lparr>date_range := [19400, 19500]\<rparr>) = []"
    by (simp add: filtered_df_filter satisfies_active_filters_def example_simps)
  ultimately show ?thesis
    by simp
qed

section \<open>The claims about the loader\<close>

text \<open>
  Claim C4, as the code has it. Every record of the frame \<open>load_data\<close> returns has a
  timestamp as its date and a text as its job title; the text can be empty. When a file
  is read and normalised, the records returned are, label by label and in order, the
  records of the file whose date parses and whose title is a text (\<open>kept_at_load\<close>):
  a record with a date that does not parse or with a title that is missing or not a text
  is dropped.
\<close>

theorem load_data_valid_date_and_text_title:
  "(\<forall>r \<in> set (rows (snd (load_data lib smp fs))).
      (\<exists>t. cell_at r ''Date'' = Stamp t) \<and> (\<exists>s. cell_at r ''Job Title'' = Str s)) \<and>
   (\<forall>df df'. read_first fs possible_files = Inr (Some df) \<longrightarrow> preprocess lib df = Inr df' \<longrightarrow>
      load_data lib smp fs = ([], df') \<and>
      map fst (rows df') = map fst (filter (kept_at_load lib df) (rows df)))"
proof (intro conjI ballI allI impI)
  fix r assume "r \<in> set (rows (snd (load_data lib smp fs)))"
  from loaded_rows [OF this] show "\<exists>t. cell_at r ''Date'' = Stamp t"
    and "\<exists>s. cell_at r ''Job Title'' = Str s"
    by blast+
next
  fix df df' assume a: "read_first fs possible_files = Inr (Some df)" "preprocess lib df = Inr df'"
  then show "load_data lib smp fs = ([], df')"
    by (rule load_data_loaded)
  from preprocess_rows [OF a(2)]
  show "map fst (rows df') = map fst (filter (kept_at_load lib df) (rows df))"
    by (rule list_all2_labels)
qed

theorem load_data_valid_date_and_text_title_witness:
  "map fst (rows (snd (load_data example_pandas example_sampler example_fs))) = [0, 2] \<and>
   map fst (filter (kept_at_load example_pandas example_sheet) (rows example_sheet)) = [0, 2] \<and>
   map (\<lambda>r. cell_at r ''Date'') (rows (snd (load_data example_pandas example_sampler example_fs))) =
     [Stamp 1672617600000000000, Stamp 1672704000000000000]"
proof -
  have "map fst (filter (kept_at_load example_pandas example_sheet) (rows example_sheet)) = [0, 2]"
    by (simp add: kept_at_load_def loader_simps)
  with load_data_valid_date_and_text_title [of example_pandas example_sampler example_fs] example_read example_preprocess
    example_load_dates
  show ?thesis
    by simp
qed

text \<open>
  Claim C4 as stated asks for a title that is not empty. The third row of the example
  spreadsheet has a title of three blanks: \<open>str.strip()\<close> makes it the empty text, which
  \<open>dropna\<close> does not count as missing, so the record is returned with an empty title.
\<close>

theorem load_data_keeps_blank_title:
  "length (rows (snd (load_data example_pandas example_sampler example_fs))) = 2 \<and>
   cell_at (rows (snd (load_data example_pandas example_sampler example_fs)) ! 1) ''Job Title'' =
     Str ''''"
proof -
  have "length (map (\<lambda>r. cell_at r ''Job Title'')
      (rows (snd (load_data example_pandas example_sampler example_fs)))) = 2"
    and "map (\<lambda>r. cell_at r ''Job Title'')
      (rows (snd (load_data example_pandas example_sampler example_fs))) ! 1 = Str ''''"
    by (simp_all only: example_load_titles) simp_all
  then show ?thesis
    by simp
qed

text \<open>
  Claim C6, as the code has it. In every record \<open>load_data\<close> returns, the job title is a
  text with no white space at either end. When a file is read and normalised, each record
  returned comes from a kept record of the file, label by label and in order, with its
  flags as read (\<open>flags_as_read\<close>): a hired or easy apply value that is a text is kept as
  it is, whatever it says; a value that is not missing is held as a text; and when the
  file has no such column every record holds \<open>No\<close>. Its title is the stripped title.
\<close>

theorem load_data_flags_as_read:
  "(\<forall>r \<in> set (rows (snd (load_data lib smp fs))).
      \<exists>s. cell_at r ''Job Title'' = Str s \<and>
          (s = [] \<or> (\<not> is_space (hd s) \<and> \<not> is_space (last s)))) \<and>
   (\<forall>df df'. read_first fs possible_files = Inr (Some df) \<longrightarrow> preprocess lib df = Inr df' \<longrightarrow>
      load_data lib smp fs = ([], df') \<and>
      list_all2 (flags_as_read df) (filter (kept_at_load lib df) (rows df)) (rows df'))"
proof (intro conjI ballI allI impI)
  fix r assume "r \<in> set (rows (snd (load_data lib smp fs)))"
  from loaded_rows [OF this]
  show "\<exists>s. cell_at r ''Job Title'' = Str s \<and>
          (s = [] \<or> (\<not> is_space (hd s) \<and> \<not> is_space (last s)))"
    by (rule conjunct2)
next
  fix df df' assume a: "read_first fs possible_files = Inr (Some df)" "preprocess lib df = Inr df'"
  then show "load_data lib smp fs = ([], df')"
    by (rule load_data_loaded)
  from a(2)
  show "list_all2 (flags_as_read df) (filter (kept_at_load lib df) (rows df)) (rows df')"
    by (rule preprocess_flags)
qed

theorem load_data_flags_as_read_witness:
  "list_all2 (flags_as_read example_sheet)
     (filter (kept_at_load example_pandas example_sheet) (rows example_sheet))
     (rows (snd (load_data example_pandas example_sampler example_fs))) \<and>
   map (\<lambda>r. cell_at r ''Job Title'')
     (rows (snd (load_data example_pandas example_sampler example_fs))) =
   [Str ''Data Analyst'', Str []] \<and>
   map (\<lambda>r. cell_at r ''Easy Apply'')
     (rows (snd (load_data example_pandas example_sampler example_fs))) =
   [Str ''No'', Str ''No'']"
proof -
  have "map (\<lambda>r. cell_at r ''Easy Apply'')
     (rows (snd (load_data example_pandas example_sampler example_fs))) =
   [Str ''No'', Str ''No'']"
    by (simp add: loader_simps)
  with load_data_flags_as_read [of example_pandas example_sampler example_fs]
    example_read example_preprocess example_load_titles
  show ?thesis
    by simp
qed

text \<open>
  Claim C6 as stated allows only \<open>Yes\<close> and \<open>No\<close>, with \<open>No\<close> for any other input. The first
  row of the example spreadsheet has \<open>Maybe\<close> in its Hired cell, and the record is returned
  with \<open>Maybe\<close>.
\<close>

theorem load_data_keeps_other_hired_value:
  "cell_at (hd (rows (snd (load_data example_pandas example_sampler example_fs)))) ''Hired'' =
     Str ''Maybe''"
proof -
  have "hd (map (\<lambda>r. cell_at r ''Hired'')
      (rows (snd (load_data example_pandas example_sampler example_fs)))) = Str ''Maybe''"
    by (simp only: example_load_hired) simp
  moreover have "rows (snd (load_data example_pandas example_sampler example_fs)) \<noteq> []"
    using example_load_labels by auto
  ultimately show ?thesis
    by (simp add: hd_map)
qed

text \<open>
  Claim C8. \<open>load_data\<close> returns a frame with its messages in every case. When no
  candidate file exists it shows the warning and returns the sample data; when reading
  the first file that exists raises, or normalising what was read raises, it shows the
  error and returns the sample data; otherwise it returns the normalised file with no
  message. The last conjunct says which candidate decides: the first one whose reading
  does not raise FileNotFoundError. The sample data depend on the generator only.
\<close>

theorem load_data_falls_back_to_sample:
  "((\<forall>f \<in> set possible_files. fs f = Inl FileNotFoundError) \<longrightarrow>
      load_data lib smp fs =
        ([St_warning ''Data file not found. Using sample data for demonstration.''],
         create_sample_data smp)) \<and>
   (\<forall>e. read_first fs possible_files = Inl e \<longrightarrow>
      load_data lib smp fs = ([St_error ''Error loading data: '' e], create_sample_data smp)) \<and>
   (\<forall>df e. read_first fs possible_files = Inr (Some df) \<longrightarrow> preprocess lib df = Inl e \<longrightarrow>
      load_data lib smp fs = ([St_error ''Error loading data: '' e], create_sample_data smp)) \<and>
   (\<forall>df df'. read_first fs possible_files = Inr (Some df) \<longrightarrow> preprocess lib df = Inr df' \<longrightarrow>
      load_data lib smp fs = ([], df')) \<and>
   read_first fs possible_files =
     (case dropWhile (\<lambda>f. fs f = Inl FileNotFoundError) possible_files of
        [] \<Rightarrow> Inr None
      | f # _ \<Rightarrow> (case fs f of Inr df \<Rightarrow> Inr (Some df) | Inl e \<Rightarrow> Inl e))"
proof (intro conjI allI impI)
  assume "\<forall>f \<in> set possible_files. fs f = Inl FileNotFoundError"
  then have "dropWhile (\<lambda>f. fs f = Inl FileNotFoundError) possible_files = []"
    by simp
  then have "read_first fs possible_files = Inr None"
    by (simp only: read_first_dropWhile list.case)
  then show "load_data lib smp fs =
        ([St_warning ''Data file not found. Using sample data for demonstration.''],
         create_sample_data smp)"
    by (simp add: load_data_def load_data_try_def)
next
  fix e assume "read_first fs possible_files = Inl e"
  then show "load_data lib smp fs = ([St_error ''Error loading data: '' e], create_sample_data smp)"
    by (simp add: load_data_def load_data_try_def)
next
  fix df e assume "read_first fs possible_files = Inr (Some df)" "preprocess lib df = Inl e"
  then show "load_data lib smp fs = ([St_error ''Error loading data: '' e], create_sample_data smp)"
    by (simp add: load_data_def load_data_try_def)
next
  fix df df' assume "read_first fs possible_files = Inr (Some df)" "preprocess lib df = Inr df'"
  then show "load_data lib smp fs = ([], df')"
    by (rule load_data_loaded)
next
  show "read_first fs possible_files =
     (case dropWhile (\<lambda>f. fs f = Inl FileNotFoundError) possible_files of
        [] \<Rightarrow> Inr None
      | f # _ \<Rightarrow> (case fs f of Inr df \<Rightarrow> Inr (Some df) | Inl e \<Rightarrow> Inl e))"
    by (rule read_first_dropWhile)
qed

theorem load_data_falls_back_to_sample_witness:
  "load_data example_pandas example_sampler (\<lambda>f. Inl FileNotFoundError) =
     ([St_warning ''Data file not found. Using sample data for demonstration.''],
      create_sample_data example_sampler) \<and>
   load_data example_pandas example_sampler
       (\<lambda>f. if f = ''dataanalystjobs2023.xlsx'' then Inl (OtherException ''BadZipFile'')
            else Inl FileNotFoundError) =
     ([St_error ''Error loading data: '' (OtherException ''BadZipFile'')],
      create_sample_data example_sampler) \<and>
   load_data example_pandas example_sampler
       (\<lambda>f. Inr \<lparr>columns = [''Job Title''], rows = [(0, (\<lambda>_. NaN)(''Job Title'' := Str ''Data Analyst''))]\<rparr>) =
     ([St_error ''Error loading data: '' (KeyError ''Date'')],
      create_sample_data example_sampler)"
proof -
  let ?fs2 = "\<lambda>f. if f = ''dataanalystjobs2023.xlsx'' then Inl (OtherException ''BadZipFile'')
            else Inl FileNotFoundError"
  let ?df = "\<lparr>columns = [''Job Title''], rows = [(0, (\<lambda>_. NaN)(''Job Title'' := Str ''Data Analyst''))]\<rparr>"
  have 1: "\<forall>f \<in> set possible_files. (\<lambda>f. Inl FileNotFoundError :: error + frame) f = Inl FileNotFoundError"
    by simp
  have 2: "read_first ?fs2 possible_files = Inl (OtherException ''BadZipFile'')"
    by (simp add: possible_files_def)
  have 3: "read_first (\<lambda>f. Inr ?df) possible_files = Inr (Some ?df)"
    and 4: "preprocess example_pandas ?df = Inl (KeyError ''Date'')"
    by (simp_all add: possible_files_def preprocess_def)
  from load_data_falls_back_to_sample [of "\<lambda>f. Inl FileNotFoundError" example_pandas example_sampler] 1
  have a: "load_data example_pandas example_sampler (\<lambda>f. Inl FileNotFoundError) =
     ([St_warning ''Data file not found. Using sample data for demonstration.''],
      create_sample_data example_sampler)"
    by blast
  from load_data_falls_back_to_sample [of ?fs2 example_pandas example_sampler] 2
  have b: "load_data example_pandas example_sampler ?fs2 =
     ([St_error ''Error loading data: '' (OtherException ''BadZipFile'')],
      create_sample_data example_sampler)"
    by blast
  from load_data_falls_back_to_sample [of "\<lambda>f. Inr ?df" example_pandas example_sampler] 3 4
  have c: "load_data example_pandas example_sampler (\<lambda>f. Inr ?df) =
     ([St_error ''Error loading data: '' (KeyError ''Date'')],
      create_sample_data example_sampler)"
    by blast
  from a b c show ?thesis
    by (intro conjI)
qed

section \<open>The claims about the indicators and the weekly pattern\<close>

text \<open>
  Claim C3, as the code has it. The hire rate is the number of rows with \<open>Yes\<close> in Hired,
  divided by the number of rows whose Hired cell is not missing, times 100; for rows with
  no missing Hired cell this is the count divided by the total, times 100. The easy apply
  rate is computed the same way from Easy Apply. Both lie between 0 and 100, and the
  expressions of lines 235 and 243 give 0 for no rows. (For no rows the script shows its
  warning and does not display the rates.)
\<close>

theorem rates_over_present_values:
  "hired_pct fd =
     (let n = length (filter (\<lambda>r. cell_at r ''Hired'' \<noteq> NaN) fd)
      in if n = 0 then 0
         else real (length (filter (\<lambda>r. cell_at r ''Hired'' = Str ''Yes'') fd)) / real n * 100) \<and>
   easy_pct fd =
     (let n = length (filter (\<lambda>r. cell_at r ''Easy Apply'' \<noteq> NaN) fd)
      in if n = 0 then 0
         else real (length (filter (\<lambda>r. cell_at r ''Easy Apply'' = Str ''Yes'') fd)) / real n *
              100) \<and>
   ((\<forall>r \<in> set fd. cell_at r ''Hired'' \<noteq> NaN) \<longrightarrow>
      hired_pct fd =
        (if length fd = 0 then 0
         else real (length (filter (\<lambda>r. cell_at r ''Hired'' = Str ''Yes'') fd)) /
              real (length fd) * 100)) \<and>
   ((\<forall>r \<in> set fd. cell_at r ''Easy Apply'' \<noteq> NaN) \<longrightarrow>
      easy_pct fd =
        (if length fd = 0 then 0
         else real (length (filter (\<lambda>r. cell_at r ''Easy Apply'' = Str ''Yes'') fd)) /
              real (length fd) * 100)) \<and>
   0 \<le> hired_pct fd \<and> hired_pct fd \<le> 100 \<and> 0 \<le> easy_pct fd \<and> easy_pct fd \<le> 100 \<and>
   hired_pct [] = 0 \<and> easy_pct [] = 0"
proof (intro conjI impI)
  show "hired_pct fd =
     (let n = length (filter (\<lambda>r. cell_at r ''Hired'' \<noteq> NaN) fd)
      in if n = 0 then 0
         else real (length (filter (\<lambda>r. cell_at r ''Hired'' = Str ''Yes'') fd)) / real n * 100)"
    unfolding hired_pct_def by (rule pct_present)
  show "easy_pct fd =
     (let n = length (filter (\<lambda>r. cell_at r ''Easy Apply'' \<noteq> NaN) fd)
      in if n = 0 then 0
         else real (length (filter (\<lambda>r. cell_at r ''Easy Apply'' = Str ''Yes'') fd)) / real n *
              100)"
    unfolding easy_pct_def by (rule pct_present)
  show "0 \<le> hired_pct fd" and "hired_pct fd \<le> 100"
    using pct_bounds [of "col ''Hired'' fd" "''Yes''"] by (simp_all add: hired_pct_def)
  show "0 \<le> easy_pct fd" and "easy_pct fd \<le> 100"
    using pct_bounds [of "col ''Easy Apply'' fd" "''Yes''"] by (simp_all add: easy_pct_def)
  show "hired_pct [] = 0" and "easy_pct [] = 0"
    by (simp_all add: hired_pct_def easy_pct_def series_get_normalize col_def)
next
  assume "\<forall>r \<in> set fd. cell_at r ''Hired'' \<noteq> NaN"
  then show "hired_pct fd =
        (if length fd = 0 then 0
         else real (length (filter (\<lambda>r. cell_at r ''Hired'' = Str ''Yes'') fd)) /
              real (length fd) * 100)"
    unfolding hired_pct_def by (rule pct_formula)
next
  assume "\<forall>r \<in> set fd. cell_at r ''Easy Apply'' \<noteq> NaN"
  then show "easy_pct fd =
        (if length fd = 0 then 0
         else real (length (filter (\<lambda>r. cell_at r ''Easy Apply'' = Str ''Yes'') fd)) /
              real (length fd) * 100)"
    unfolding easy_pct_def by (rule pct_formula)
qed

theorem rates_over_present_values_witness:
  "hired_pct (rows example_frame) = 100 / 3 \<and> easy_pct (rows example_frame) = 200 / 3"
proof -
  let ?fd = "rows example_frame"
  have "\<forall>r \<in> set ?fd. cell_at r ''Hired'' \<noteq> NaN"
    and "\<forall>r \<in> set ?fd. cell_at r ''Easy Apply'' \<noteq> NaN"
    by (simp_all add: example_simps)
  with rates_over_present_values [of ?fd]
  have h: "hired_pct ?fd =
           (if length ?fd = 0 then 0
            else real (length (filter (\<lambda>r. cell_at r ''Hired'' = Str ''Yes'') ?fd)) /
                 real (length ?fd) * 100)"
    and e: "easy_pct ?fd =
           (if length ?fd = 0 then 0
            else real (length (filter (\<lambda>r. cell_at r ''Easy Apply'' = Str ''Yes'') ?fd)) /
                 real (length ?fd) * 100)"
    by blast+
  have "length ?fd = 3"
    and "length (filter (\<lambda>r. cell_at r ''Hired'' = Str ''Yes'') ?fd) = 1"
    and "length (filter (\<lambda>r. cell_at r ''Easy Apply'' = Str ''Yes'') ?fd) = 2"
    by (simp_all add: example_simps)
  with h e show ?thesis
    by simp
qed

text \<open>
  Claim C3 as stated divides by the total number of records. The second example
  spreadsheet has \<open>Yes\<close>, \<open>No\<close> and an empty cell in Hired; with a pandas that leaves the
  empty cell missing, the three records are loaded and pass the initial filters, one of
  them has \<open>Yes\<close>, and the hire rate is 50, not a third of 100: \<open>value_counts\<close> does not
  count the missing cell.
\<close>

theorem hire_rate_skips_missing_hired:
  "length (filtered_df (snd (load_data example_pandas example_sampler example_fs_hired))
      example_initial) = 3 \<and>
   length (filter (\<lambda>r. cell_at r ''Hired'' = Str ''Yes'')
     (filtered_df (snd (load_data example_pandas example_sampler example_fs_hired))
        example_initial)) = 1 \<and>
   hired_pct (filtered_df (snd (load_data example_pandas example_sampler example_fs_hired))
      example_initial) = 50"
proof -
  let ?fd = "filtered_df (snd (load_data example_pandas example_sampler example_fs_hired))
      example_initial"
  have "length (col ''Hired'' ?fd) = 3"
    by (simp only: example_hired_column) simp
  then have a: "length ?fd = 3"
    by (simp add: col_def)
  have "count_list (col ''Hired'' ?fd) (Str ''Yes'') = 1"
    by (simp only: example_hired_column) simp
  then have b: "length (filter (\<lambda>r. cell_at r ''Hired'' = Str ''Yes'') ?fd) = 1"
    by (simp only: count_list_col)
  have "series_get (value_counts_normalize (col ''Hired'' ?fd)) (Str ''Yes'') 0 * 100 = 50"
    unfolding series_get_normalize by (simp only: example_hired_column) (simp add: isna_def)
  then have c: "hired_pct ?fd = 50"
    by (simp only: hired_pct_def)
  from a b c show ?thesis
    by (intro conjI)
qed

text \<open>
  Claim C7. Jobs per day is the number of rows divided by \<open>max(1, days)\<close>, where \<open>days\<close> is
  the whole number of days between the earliest and the latest timestamp of the rows.
  The divisor is at least 1, so the division raises nothing: for rows within one day the
  result is the number of rows, and the indicators are always produced without an error;
  for no rows the script shows its warning.
\<close>

theorem avg_jobs_per_day_divisor_at_least_one:
  "avg_jobs_per_day fd = Inr (real (length fd) / real_of_int (py_max 1 (span_days fd))) \<and>
   1 \<le> py_max 1 (span_days fd) \<and>
   (\<forall>hi lo. series_max (col ''Date'' fd) = Some hi \<longrightarrow> series_min (col ''Date'' fd) = Some lo \<longrightarrow>
      avg_jobs_per_day fd =
        Inr (real (length fd) / real_of_int (max 1 ((hi - lo) div ns_per_day)))) \<and>
   (span_days fd = Some 0 \<longrightarrow> avg_jobs_per_day fd = Inr (real (length fd))) \<and>
   (\<exists>out. main_dashboard fd = Inr out) \<and>
   avg_jobs_per_day [] = Inr 0 \<and>
   main_dashboard [] =
     Inr (Inl (St_warning
       ''No data matches your selected filters. Please adjust your criteria.''))"
proof -
  have pos: "1 \<le> py_max 1 (span_days fd)"
    by (rule py_max_ge)
  then have avg: "avg_jobs_per_day fd =
      Inr (real (length fd) / real_of_int (py_max 1 (span_days fd)))"
    by (simp add: avg_jobs_per_day_def py_truediv_def)
  have days: "avg_jobs_per_day fd =
        Inr (real (length fd) / real_of_int (max 1 ((hi - lo) div ns_per_day)))"
    if "series_max (col ''Date'' fd) = Some hi" "series_min (col ''Date'' fd) = Some lo" for hi lo
    using that by (simp add: avg span_days_def timedelta_days_def py_max_Some)
  have one: "avg_jobs_per_day fd = Inr (real (length fd))" if "span_days fd = Some 0"
    using that by (simp add: avg py_max_Some)
  have out: "\<exists>out. main_dashboard fd = Inr out"
    by (simp add: main_dashboard_def avg)
  have "avg_jobs_per_day [] = Inr 0"
    by (simp add: avg_jobs_per_day_def py_truediv_def span_days_def col_def series_max_def
        series_min_def stamps_def timedelta_days_def py_max_def)
  moreover have "main_dashboard [] =
     Inr (Inl (St_warning
       ''No data matches your selected filters. Please adjust your criteria.''))"
    by (simp add: main_dashboard_def)
  ultimately show ?thesis
    using pos avg days one out by blast
qed

theorem avg_jobs_per_day_divisor_at_least_one_witness:
  "avg_jobs_per_day (rows example_frame) = Inr (1 / 24) \<and>
   avg_jobs_per_day [hd (rows example_frame)] = Inr 1"
proof -
  have "series_max (col ''Date'' (rows example_frame)) = Some 1678838400000000000"
    and "series_min (col ''Date'' (rows example_frame)) = Some 1672617600000000000"
    by (simp_all add: kpi_simps example_simps)
  with avg_jobs_per_day_divisor_at_least_one [of "rows example_frame"]
  have "avg_jobs_per_day (rows example_frame) =
      Inr (real (length (rows example_frame)) /
        real_of_int (max 1 ((1678838400000000000 - 1672617600000000000) div ns_per_day)))"
    by blast
  then have a: "avg_jobs_per_day (rows example_frame) = Inr (1 / 24)"
    by (simp add: example_frame_def ns_per_day_def)
  have "span_days [hd (rows example_frame)] = Some 0"
    by (simp add: span_days_def timedelta_days_def kpi_simps example_simps)
  with avg_jobs_per_day_divisor_at_least_one [of "[hd (rows example_frame)]"]
  have "avg_jobs_per_day [hd (rows example_frame)] = Inr (real (length [hd (rows example_frame)]))"
    by blast
  with a show ?thesis
    by simp
qed

text \<open>
  Claim C5, as the code has it. The weekly pattern has exactly seven entries, labelled
  Monday to Sunday in this order; the entry of a weekday is the number of rows dated on
  it when there is such a row, and missing (\<open>NaN\<close>) when there is none. This is what
  lines 390 to 393 compute from any rows; the script reaches them for the rows on which
  the chart of line 359 is drawn (\<open>draws_success_rate_chart\<close>).
\<close>

theorem daily_pattern_seven_days_absent_day_missing:
  "length (daily_pattern fd) = 7 \<and>
   map fst (daily_pattern fd) =
     [Str ''Monday'', Str ''Tuesday'', Str ''Wednesday'', Str ''Thursday'', Str ''Friday'',
      Str ''Saturday'', Str ''Sunday''] \<and>
   (\<forall>i < 7. snd (daily_pattern fd ! i) =
      (let n = length (filter (\<lambda>r. dt_day_name (cell_at r ''Date'') = Str (day_names ! i)) fd)
       in if n = 0 then None else Some n))"
proof (intro conjI allI impI)
  show "length (daily_pattern fd) = 7"
    by (simp add: daily_pattern_def reindex_def day_names_def)
  show "map fst (daily_pattern fd) =
     [Str ''Monday'', Str ''Tuesday'', Str ''Wednesday'', Str ''Thursday'', Str ''Friday'',
      Str ''Saturday'', Str ''Sunday'']"
    by (simp add: daily_pattern_def reindex_def day_names_def comp_def)
next
  fix i :: nat assume "i < 7"
  then show "snd (daily_pattern fd ! i) =
      (let n = length (filter (\<lambda>r. dt_day_name (cell_at r ''Date'') = Str (day_names ! i)) fd)
       in if n = 0 then None else Some n)"
    by (simp only: daily_pattern_nth snd_conv)
qed

theorem daily_pattern_seven_days_absent_day_missing_witness:
  "snd (daily_pattern (rows example_frame) ! 0) = Some 1 \<and>
   snd (daily_pattern (rows example_frame) ! 3) = None \<and>
   length (daily_pattern (rows example_frame)) = 7 \<and>
   draws_success_rate_chart (rows example_frame)"
proof -
  have chart: "draws_success_rate_chart (rows example_frame)"
    by (simp add: draws_success_rate_chart_def crosstab_columns_def unique_def col_def
        isna_def example_frame_def posting_def cell_at_def)
  let ?n = "\<lambda>i. length (filter (\<lambda>r. dt_day_name (cell_at r ''Date'') = Str (day_names ! i))
      (rows example_frame))"
  have d: "day_names ! 0 = ''Monday''" "day_names ! 3 = ''Thursday''"
    by (simp_all add: day_names_def)
  have "length (filter (\<lambda>c. c = Str ''Monday'')
      (map (\<lambda>r. dt_day_name (cell_at r ''Date'')) (rows example_frame))) = 1"
    and "length (filter (\<lambda>c. c = Str ''Thursday'')
      (map (\<lambda>r. dt_day_name (cell_at r ''Date'')) (rows example_frame))) = 0"
    by (simp_all only: example_day_names) simp_all
  then have n: "?n 0 = 1" "?n 3 = 0"
    by (simp_all only: d length_filter_comp)
  note t = daily_pattern_seven_days_absent_day_missing [of "rows example_frame"]
  from t have len: "length (daily_pattern (rows example_frame)) = 7"
    by (rule conjunct1)
  from t have "\<forall>i < 7. snd (daily_pattern (rows example_frame) ! i) =
      (let n = ?n i in if n = 0 then None else Some n)"
    by (rule conjunct2 [THEN conjunct2])
  then have "snd (daily_pattern (rows example_frame) ! 0) =
      (let n = ?n 0 in if n = 0 then None else Some n)"
    and "snd (daily_pattern (rows example_frame) ! 3) =
      (let n = ?n 3 in if n = 0 then None else Some n)"
    by simp_all
  then have "snd (daily_pattern (rows example_frame) ! 0) = Some 1"
    and "snd (daily_pattern (rows example_frame) ! 3) = None"
    unfolding n by simp_all
  with len chart show ?thesis
    by simp
qed

text \<open>
  Claim C5 as stated asks for a count of zero on a weekday with no rows. With the initial
  filters on the example frame, the postings of Monday 2023-01-02 and Tuesday 2023-01-03
  are left, one hired and one not, so that the charts before the weekly pattern are
  drawn; the entry of Wednesday is missing, not zero: \<open>reindex\<close> is called with no
  \<open>fill_value\<close>.
\<close>

theorem daily_pattern_absent_day_is_nan:
  "map fst (filtered_df example_frame example_initial) = [0, 1] \<and>
   draws_success_rate_chart (filtered_df example_frame example_initial) \<and>
   daily_pattern (filtered_df example_frame example_initial) ! 2 = (Str ''Wednesday'', None)"
proof -
  let ?fd = "[rows example_frame ! 0, rows example_frame ! 1]"
  have "map fst ?fd = [0, 1]"
    by (simp add: example_frame_def)
  moreover have "draws_success_rate_chart ?fd"
    by (simp add: draws_success_rate_chart_def crosstab_columns_def unique_def col_def
        isna_def example_frame_def posting_def cell_at_def)
  moreover have "map (\<lambda>r. dt_day_name (cell_at r ''Date'')) ?fd = [Str ''Monday'', Str ''Tuesday'']"
    by (simp add: example_frame_def posting_def cell_at_def dt_day_name_def
        example_day_name_0 example_day_name_1)
  then have "length (filter (\<lambda>c. c = Str ''Wednesday'')
      (map (\<lambda>r. dt_day_name (cell_at r ''Date'')) ?fd)) = 0"
    by (simp only:) simp
  then have "length (filter (\<lambda>r. dt_day_name (cell_at r ''Date'') = Str ''Wednesday'') ?fd) = 0"
    by (simp only: length_filter_comp)
  moreover have "day_names ! 2 = ''Wednesday''" and "(2::nat) < 7"
    by (simp_all add: day_names_def)
  ultimately show ?thesis
    by (simp add: example_initial_subset daily_pattern_nth)
qed


end
